theory Spec2Isabelle
  imports Complex_Main "HOL-Library.Product_Lexorder"
begin

section \<open>Python values and errors\<close>

text \<open>
  Exceptions of the Python sources are values. \<open>ValueError\<close> carries which of the
  source's messages was raised; the other constructors are the implicit errors of the
  Python operations the sources perform (arithmetic on \<open>None\<close>, a missing dictionary
  key, an attribute of \<open>None\<close>, a local read before assignment, an int too large for a
  float, leaving the debugger)
  and the failures of the external calls.
\<close>

datatype message =
    GtWithNoGt          \<comment> \<open>"Since no_gt==True, all other args should not use ground-truth values"\<close>
  | LatentDims          \<comment> \<open>"When using latent model, you need to define k and d_x ..."\<close>
  | RatioSum            \<comment> \<open>"The sum of the ratio for training and validation set is higher than 1"\<close>
  | FileFormat          \<comment> \<open>"This file format (...) is not supported."\<close>
  | OptimizerType       \<comment> \<open>"This optimizer type (...) is not supported."\<close>
  | FrequencyNotImplemented  \<comment> \<open>"This value for frequency (...) is not yet implemented"\<close>
  | Broadcast           \<comment> \<open>numpy: operands could not be broadcast together\<close>

datatype error =
    ValueError message
  | TypeError
  | KeyError string
  | AttributeError
  | UnboundLocalError
  | OverflowError
  | BdbQuit
  | ExternalFailure string

section \<open>Python numbers: float64 and int\<close>

text \<open>
  A Python \<open>float\<close> (and a numpy \<open>float64\<close>) is an IEEE 754 binary64 number: a finite
  value, an infinity or NaN. A finite double is kept as the real number it stands for.
  The sign of zero is not kept: it shows only in a division by a negative zero, and no
  divisor of these sources can be one.

  Every arithmetic operation returns the exact result rounded to the nearest double, ties
  to the even significand. \<open>rhe\<close> rounds a real to the nearest integer, ties to even.
  \<open>round64\<close> rounds to 53 significant bits; below \<open>2^-1022\<close> the spacing stays
  \<open>2^-1074\<close> (subnormal numbers). A rounded result of magnitude \<open>2^1024\<close> or more
  overflows to an infinity.
\<close>

definition rhe :: "real \<Rightarrow> int" where
  "rhe t =
     (let f = \<lfloor>t\<rfloor> in
      if t - of_int f < 1 / 2 then f
      else if t - of_int f > 1 / 2 then f + 1
      else if even f then f else f + 1)"

definition round64 :: "real \<Rightarrow> real" where
  "round64 x =
     (let e = max \<lfloor>log 2 \<bar>x\<bar>\<rfloor> (- 1022);
          u = 2 powi (e - 52)
      in of_int (rhe (x / u)) * u)"

datatype double = Finite real | PosInf | NegInf | NaN

definition overflow :: "real \<Rightarrow> double" where
  "overflow r =
     (if 2 ^ 1024 \<le> r then PosInf else if r \<le> - (2 ^ 1024) then NegInf else Finite r)"

fun fadd :: "double \<Rightarrow> double \<Rightarrow> double" where
  "fadd (Finite x) (Finite y) = overflow (round64 (x + y))"
| "fadd NaN b = NaN"
| "fadd a NaN = NaN"
| "fadd PosInf NegInf = NaN"
| "fadd NegInf PosInf = NaN"
| "fadd PosInf b = PosInf"
| "fadd a PosInf = PosInf"
| "fadd NegInf b = NegInf"
| "fadd a NegInf = NegInf"

fun fneg :: "double \<Rightarrow> double" where
  "fneg (Finite x) = Finite (- x)"
| "fneg PosInf = NegInf"
| "fneg NegInf = PosInf"
| "fneg NaN = NaN"

definition fsub :: "double \<Rightarrow> double \<Rightarrow> double" where
  "fsub a b = fadd a (fneg b)"

text \<open>
  Division as numpy does it on \<open>float64\<close>: dividing by zero gives an infinity, or NaN
  for \<open>0 / 0\<close> (with a warning, not an exception).
\<close>

fun fdiv :: "double \<Rightarrow> double \<Rightarrow> double" where
  "fdiv (Finite x) (Finite y) =
     (if y = 0 then (if x = 0 then NaN else if 0 < x then PosInf else NegInf)
      else overflow (round64 (x / y)))"
| "fdiv NaN b = NaN"
| "fdiv a NaN = NaN"
| "fdiv (Finite x) b = Finite 0"
| "fdiv a (Finite y) = (if (a = PosInf) = (0 \<le> y) then PosInf else NegInf)"
| "fdiv a b = NaN"

text \<open>Comparisons: every comparison with NaN is false.\<close>

fun flt :: "double \<Rightarrow> double \<Rightarrow> bool" where
  "flt (Finite x) (Finite y) = (x < y)"
| "flt NaN b = False"
| "flt a NaN = False"
| "flt PosInf b = False"
| "flt a NegInf = False"
| "flt NegInf b = True"
| "flt a PosInf = True"

fun feq :: "double \<Rightarrow> double \<Rightarrow> bool" where
  "feq (Finite x) (Finite y) = (x = y)"
| "feq NaN b = False"
| "feq a NaN = False"
| "feq a b = (a = b)"

text \<open>
  A number of the configuration is a Python \<open>int\<close> (unbounded; what \<open>type=int\<close> of the
  parser and an integer literal of JSON give) or a \<open>float\<close>. Arithmetic on two ints is
  exact; otherwise an int operand is first converted to float, which raises OverflowError
  when it is too large. A comparison of an int with a float compares the exact values.
\<close>

datatype pynum = IntNum int | FloatNum double

definition to_float :: "pynum \<Rightarrow> error + double" where
  "to_float v =
     (case v of
        FloatNum d \<Rightarrow> Inr d
      | IntNum i \<Rightarrow>
          (case overflow (round64 (of_int i)) of
             Finite r \<Rightarrow> Inr (Finite r)
           | _ \<Rightarrow> Inl OverflowError))"

definition exact :: "pynum \<Rightarrow> double" where
  "exact v = (case v of IntNum i \<Rightarrow> Finite (of_int i) | FloatNum d \<Rightarrow> d)"

definition py_lt :: "pynum \<Rightarrow> pynum \<Rightarrow> bool" where
  "py_lt a b = flt (exact a) (exact b)"

definition py_eq :: "pynum \<Rightarrow> pynum \<Rightarrow> bool" where
  "py_eq a b = feq (exact a) (exact b)"

definition py_le :: "pynum \<Rightarrow> pynum \<Rightarrow> bool" where
  "py_le a b = (py_lt a b \<or> py_eq a b)"

text \<open>Python's \<open>+\<close> and \<open>-\<close> on numbers that may be \<open>None\<close>: \<open>None\<close> raises TypeError.\<close>

definition py_arith ::
  "(int \<Rightarrow> int \<Rightarrow> int) \<Rightarrow> (double \<Rightarrow> double \<Rightarrow> double) \<Rightarrow> pynum option \<Rightarrow> pynum option
     \<Rightarrow> error + pynum" where
  "py_arith int_op float_op a b =
     (case (a, b) of
        (Some (IntNum i), Some (IntNum j)) \<Rightarrow> Inr (IntNum (int_op i j))
      | (Some x, Some y) \<Rightarrow>
          (case to_float x of
             Inl e \<Rightarrow> Inl e
           | Inr dx \<Rightarrow>
               (case to_float y of
                  Inl e \<Rightarrow> Inl e
                | Inr dy \<Rightarrow> Inr (FloatNum (float_op dx dy))))
      | _ \<Rightarrow> Inl TypeError)"

definition py_sub :: "pynum option \<Rightarrow> pynum option \<Rightarrow> error + pynum" where
  "py_sub a b = py_arith (-) fsub a b"

definition py_add :: "pynum option \<Rightarrow> pynum option \<Rightarrow> error + pynum" where
  "py_add a b = py_arith (+) fadd a b"

text \<open>
  The doubles nearest to 0.8 and to 0.2 less one unit in the last place, which is
  \<open>1 - 0.8\<close> in float64 (0.19999999999999996).
\<close>

definition double_0_8 :: real where
  "double_0_8 = 3602879701896397 / 4503599627370496"

definition double_1_minus_0_8 :: real where
  "double_1_minus_0_8 = 900719925474099 / 4503599627370496"

section \<open>plot.py: moving_average\<close>

text \<open>
  Python slicing on a sequence of length \<open>L\<close>: a negative bound counts from the end,
  and every bound is clamped to \<open>0..L\<close>. \<open>slice_from xs i\<close> is \<open>xs[i:]\<close> and
  \<open>slice_to xs j\<close> is \<open>xs[:j]\<close>.
\<close>

definition slice_bound :: "nat \<Rightarrow> int \<Rightarrow> nat" where
  "slice_bound L i = (if i < 0 then nat (max 0 (int L + i)) else min (nat i) L)"

definition slice_from :: "'a list \<Rightarrow> int \<Rightarrow> 'a list" where
  "slice_from xs i = drop (slice_bound (length xs) i) xs"

definition slice_to :: "'a list \<Rightarrow> int \<Rightarrow> 'a list" where
  "slice_to xs j = take (slice_bound (length xs) j) xs"

text \<open>
  \<open>np.cumsum(a, dtype=float)\<close>: the running sums, accumulated from left to right in
  float64, each sum rounded before the next element is added.
\<close>

fun cumsum_from :: "double \<Rightarrow> double list \<Rightarrow> double list" where
  "cumsum_from acc [] = []"
| "cumsum_from acc (x # xs) = fadd acc x # cumsum_from (fadd acc x) xs"

fun cumsum :: "double list \<Rightarrow> double list" where
  "cumsum [] = []"
| "cumsum (x # xs) = x # cumsum_from x xs"

text \<open>
  Elementwise subtraction of one-dimensional arrays with numpy's broadcasting: equal
  lengths, or one operand of length one; anything else raises.
\<close>

definition np_subtract :: "double list \<Rightarrow> double list \<Rightarrow> error + double list" where
  "np_subtract xs ys =
     (if length xs = length ys then Inr (map2 fsub xs ys)
      else if length ys = 1 then Inr (map (\<lambda>x. fsub x (hd ys)) xs)
      else if length xs = 1 then Inr (map (\<lambda>y. fsub (hd xs) y) ys)
      else Inl (ValueError Broadcast))"

text \<open>
  \<open>ret[i:] = vals\<close>: the values must have the length of the slice, or length one
  (broadcast over the slice).
\<close>

definition np_assign_from :: "double list \<Rightarrow> int \<Rightarrow> double list \<Rightarrow> error + double list" where
  "np_assign_from ret i vals =
     (let b = slice_bound (length ret) i; m = length ret - b in
      if length vals = m then Inr (take b ret @ vals)
      else if length vals = 1 then Inr (take b ret @ replicate m (hd vals))
      else Inl (ValueError Broadcast))"

text \<open>The Python int \<open>n\<close> as the float64 the array is divided by.\<close>

definition np_float :: "int \<Rightarrow> double" where
  "np_float n = overflow (round64 (of_int n))"

text \<open>
  \<^verbatim>\<open>ret = np.cumsum(a, dtype=float); ret[n:] = ret[n:] - ret[:-n]; return ret[n - 1:] / n\<close>
  The right-hand side of the assignment is a fresh array, computed before the slice is
  overwritten.
\<close>

definition moving_average :: "double list \<Rightarrow> int \<Rightarrow> error + double list" where
  "moving_average a n =
     (let ret = cumsum a in
      case np_subtract (slice_from ret n) (slice_to ret (- n)) of
        Inl e \<Rightarrow> Inl e
      | Inr diff \<Rightarrow>
          (case np_assign_from ret n diff of
             Inl e \<Rightarrow> Inl e
           | Inr ret' \<Rightarrow> Inr (map (\<lambda>x. fdiv x (np_float n)) (slice_from ret' (n - 1)))))"

section \<open>main.py: hyperparameters and their validation\<close>

text \<open>
  The hyperparameter object (\<open>argparse.Namespace\<close>, then \<open>Bunch\<close>), with the fields
  \<open>assert_args\<close> and \<open>main\<close> read. A \<open>store_true\<close> flag is a boolean; every other
  option has no parser default, so it is \<open>None\<close> until the user or the configuration file
  gives it a value. The dimensions and the ratios are numbers: the parser gives ints, a
  JSON file ints or floats.
\<close>

record args =
  no_gt :: bool
  debug_gt_graph :: bool
  debug_gt_z :: bool
  debug_gt_w :: bool
  latent :: bool
  d_z :: "pynum option"
  d_x :: "pynum option"
  ratio_train :: "pynum option"
  ratio_valid :: "pynum option"
  data_format :: "string option"
  optimizer :: "string option"
  instantaneous :: bool
  tau :: "int option"
  tau_neigh :: "int option"
  random_seed :: "int option"
  gpu :: bool
  float :: bool
  exp_path :: string
  exp_id :: "int option"

datatype warning =
    GtZWithoutLatent   \<comment> \<open>"Are you sure you want to use gt_z even if you don't have latents"\<close>
  | DzGreaterThanDx    \<comment> \<open>"Are you sure you want to have a higher dimension for k than d_x"\<close>

definition supported_dataformat :: "string list" where
  "supported_dataformat = [''numpy'', ''hdf5'']"

definition supported_optimizer :: "string list" where
  "supported_optimizer = [''sgd'', ''rmsprop'']"

text \<open>\<open>v <= 0\<close>, evaluated only after \<open>v is None\<close> was found false.\<close>

definition not_positive :: "pynum option \<Rightarrow> bool" where
  "not_positive v = (case v of None \<Rightarrow> True | Some i \<Rightarrow> py_le i (IntNum 0))"

text \<open>The two warnings at the end of \<open>assert_args\<close> (lines 167-171).\<close>

definition warnings_of :: "args \<Rightarrow> warning list" where
  "warnings_of a =
     (if \<not> latent a \<and> debug_gt_z a then [GtZWithoutLatent] else []) @
     (if latent a \<and> (case (d_z a, d_x a) of (Some z, Some x) \<Rightarrow> py_lt x z | _ \<Rightarrow> False)
      then [DzGreaterThanDx] else [])"

text \<open>
  The checks of the two string selectors (lines 157-165); \<open>None not in [...]\<close> is true in
  Python, so a missing selector raises too.
\<close>

definition check_selectors :: "args \<Rightarrow> error + args \<times> warning list" where
  "check_selectors a =
     (if (case data_format a of None \<Rightarrow> True | Some f \<Rightarrow> f \<notin> set supported_dataformat)
      then Inl (ValueError FileFormat)
      else if (case optimizer a of None \<Rightarrow> True | Some opt \<Rightarrow> opt \<notin> set supported_optimizer)
      then Inl (ValueError OptimizerType)
      else Inr (a, warnings_of a))"

text \<open>
  Lines 152-153: \<open>if args.ratio_valid == 0: args.ratio_valid = 1 - args.ratio_train\<close>.
  \<open>None == 0\<close> is false.
\<close>

definition derive_ratio_valid :: "args \<Rightarrow> error + args" where
  "derive_ratio_valid a =
     (if (case ratio_valid a of None \<Rightarrow> False | Some v \<Rightarrow> py_eq v (IntNum 0))
      then (case py_sub (Some (IntNum 1)) (ratio_train a) of
              Inl e \<Rightarrow> Inl e
            | Inr v \<Rightarrow> Inr (a\<lparr>ratio_valid := Some v\<rparr>))
      else Inr a)"

text \<open>Line 154: the value of \<open>args.ratio_train + args.ratio_valid\<close>.\<close>

definition ratio_sum :: "args \<Rightarrow> error + pynum" where
  "ratio_sum a = py_add (ratio_train a) (ratio_valid a)"

text \<open>
  \<open>assert_args\<close> (lines 140-173). It mutates \<open>args.ratio_valid\<close> and returns \<open>args\<close>;
  the model returns the updated record and the warnings issued.
\<close>

definition assert_args :: "args \<Rightarrow> error + args \<times> warning list" where
  "assert_args a =
     (if no_gt a \<and> (debug_gt_graph a \<or> debug_gt_z a \<or> debug_gt_w a)
      then Inl (ValueError GtWithNoGt)
      else if latent a \<and>
              (d_z a = None \<or> d_x a = None \<or> not_positive (d_z a) \<or> not_positive (d_x a))
      then Inl (ValueError LatentDims)
      else
        (case derive_ratio_valid a of
           Inl e \<Rightarrow> Inl e
         | Inr a1 \<Rightarrow>
             (case ratio_sum a1 of
                Inl e \<Rightarrow> Inl e
              | Inr s \<Rightarrow>
                  if py_lt (IntNum 1) s then Inl (ValueError RatioSum) else check_selectors a1)))"

text \<open>
  The invalid combinations as the specification lists them, after the derived value of
  \<open>ratio_valid\<close> is filled in. "Not a positive integer" is read of the value: an int,
  or a float with an integral value. The sum of the ratios is the sum Python computes;
  ratios that Python cannot add have no sum, so the ratio condition is false for them.
\<close>

definition missing_or_not_positive_integer :: "pynum option \<Rightarrow> bool" where
  "missing_or_not_positive_integer v =
     (case v of
        None \<Rightarrow> True
      | Some (IntNum i) \<Rightarrow> \<not> 0 < i
      | Some (FloatNum (Finite x)) \<Rightarrow> \<not> (0 < x \<and> x = of_int \<lfloor>x\<rfloor>)
      | Some (FloatNum d) \<Rightarrow> True)"

definition ratios_exceed_one :: "args \<Rightarrow> bool" where
  "ratios_exceed_one a =
     (case derive_ratio_valid a of
        Inl e \<Rightarrow> False
      | Inr a1 \<Rightarrow> (case ratio_sum a1 of Inl e \<Rightarrow> False | Inr s \<Rightarrow> py_lt (IntNum 1) s))"

definition invalid_combination :: "args \<Rightarrow> bool" where
  "invalid_combination a =
     ((no_gt a \<and> (debug_gt_graph a \<or> debug_gt_z a \<or> debug_gt_w a)) \<or>
      (latent a \<and>
         (missing_or_not_positive_integer (d_z a) \<or> missing_or_not_positive_integer (d_x a))) \<or>
      ratios_exceed_one a \<or>
      data_format a \<notin> {Some ''numpy'', Some ''hdf5''} \<or>
      optimizer a \<notin> {Some ''sgd'', Some ''rmsprop''})"

text \<open>A dimension that is missing or a Python int.\<close>

definition int_or_missing :: "pynum option \<Rightarrow> bool" where
  "int_or_missing v = (case v of None \<Rightarrow> True | Some (IntNum i) \<Rightarrow> True | Some (FloatNum d) \<Rightarrow> False)"


section \<open>main.py: the run\<close>

text \<open>\<open>str\<close> of an integer (or of \<open>None\<close>), as the f-string \<open>f"exp{args.exp_id}"\<close> prints it.\<close>

fun str_nat :: "nat \<Rightarrow> string" where
  "str_nat n = (if n < 10 then [''0123456789'' ! n]
                else str_nat (n div 10) @ [''0123456789'' ! (n mod 10)])"

declare str_nat.simps [simp del]

definition str_int :: "int option \<Rightarrow> string" where
  "str_int v =
     (case v of
        None \<Rightarrow> ''None''
      | Some i \<Rightarrow> if i < 0 then CHR ''-'' # str_nat (nat (- i)) else str_nat (nat i))"

text \<open>\<open>os.path.join\<close> of two components.\<close>

definition path_join :: "string \<Rightarrow> string \<Rightarrow> string" where
  "path_join a b =
     (if b \<noteq> [] \<and> hd b = CHR ''/'' then b
      else if a = [] \<or> last a = CHR ''/'' then a @ b
      else a @ ''/'' @ b)"

text \<open>
  What the run does to the world is a list of events, in program order. The calls into
  torch, numpy, the data loader, the model, the trainer, the metrics and the debugger are
  external: the environment says what they return. \<open>loader_d\<close> is \<open>data_loader.x.shape[2]\<close>
  (\<open>None\<close> when the DataLoader raises), \<open>train_returns\<close> whether \<open>train_with_QPM\<close> returns,
  \<open>ipdb\<close> what the debugger session entered by \<open>set_trace()\<close> does: the operator resumes
  the program, or the session ends (quit, end of input) and \<open>BdbQuit\<close> is raised.
\<close>

datatype debugger = Resume | Quit

record env =
  loader_d :: "int option"
  train_returns :: bool
  ipdb :: debugger
  edge_errors :: "(string \<times> real) list"
  shd :: real
  f1_score :: real

datatype event =
    TorchManualSeed "int option"
  | NumpyRandomSeed "int option"
  | SetDefaultTensorType string
  | MakeDirs string                \<comment> \<open>\<open>os.makedirs\<close> unless the path exists\<close>
  | DataLoaderInit
  | ModelInit bool int             \<comment> \<open>latent model?, \<open>num_input\<close>\<close>
  | WriteParams string args        \<comment> \<open>\<open>params.json\<close>: path and the dumped hyperparameters\<close>
  | TrainWithQPM
  | SetTrace                       \<comment> \<open>\<open>__import__('ipdb').set_trace()\<close>\<close>
  | GetAdj
  | WriteResults string "(string \<times> real) list"
  | Warn warning
  | SaveFig string

fun is_seed :: "event \<Rightarrow> bool" where
  "is_seed (TorchManualSeed s) = True"
| "is_seed (NumpyRandomSeed s) = True"
| "is_seed e = False"

fun is_model_init :: "event \<Rightarrow> bool" where
  "is_model_init (ModelInit l n) = True"
| "is_model_init e = False"

fun is_write_results :: "event \<Rightarrow> bool" where
  "is_write_results (WriteResults p r) = True"
| "is_write_results e = False"

fun is_save_fig :: "event \<Rightarrow> bool" where
  "is_save_fig (SaveFig p) = True"
| "is_save_fig e = False"

definition tensor_type :: "args \<Rightarrow> string" where
  "tensor_type hp =
     (if gpu hp
      then (if float hp then ''torch.cuda.FloatTensor'' else ''torch.cuda.DoubleTensor'')
      else (if float hp then ''torch.FloatTensor'' else ''torch.DoubleTensor''))"

text \<open>
  Lines 72-75, for \<open>d = data_loader.x.shape[2]\<close>. Arithmetic on a \<open>tau\<close> or \<open>tau_neigh\<close>
  that is \<open>None\<close> raises TypeError.
\<close>

definition num_input :: "args \<Rightarrow> int \<Rightarrow> error + int" where
  "num_input hp d =
     (case (tau hp, tau_neigh hp) of
        (Some t, Some tn) \<Rightarrow>
          Inr (if instantaneous hp then d * (t + 1) * (tn * 2 + 1) else d * t * (tn * 2 + 1))
      | _ \<Rightarrow> Inl TypeError)"

text \<open>\<open>errors[k] = v\<close> on a dictionary kept in insertion order.\<close>

fun dict_set :: "(string \<times> real) list \<Rightarrow> string \<Rightarrow> real \<Rightarrow> (string \<times> real) list" where
  "dict_set [] k v = [(k, v)]"
| "dict_set ((k', v') # kvs) k v =
     (if k' = k then (k, v) # kvs else (k', v') # dict_set kvs k v)"

text \<open>
  Lines 125-137: the final results, when there is a ground truth. The first statement of
  the branch is the debugger breakpoint of line 127.
\<close>

definition save_results :: "args \<Rightarrow> env \<Rightarrow> event list \<times> (error + unit)" where
  "save_results hp env =
     (if \<not> no_gt hp
      then (case ipdb env of
              Quit \<Rightarrow> ([SetTrace], Inl BdbQuit)
            | Resume \<Rightarrow>
                ([SetTrace, GetAdj,
                  WriteResults (path_join (exp_path hp) ''results.json'')
                    (dict_set (dict_set (edge_errors env) ''shd'' (shd env)) ''f1'' (f1_score env))],
                 Inr ()))
      else ([], Inr ()))"

text \<open>
  \<open>main(hp)\<close> (lines 33-137). Line 54 writes \<open>args.exp_path\<close>, the global object that
  \<open>hp\<close> is an alias of (the only call is \<open>main(args)\<close>), so the later reads of
  \<open>hp.exp_path\<close> and the dump of \<open>vars(hp)\<close> see the new path.
\<close>

definition main :: "args \<Rightarrow> env \<Rightarrow> event list \<times> (error + unit)" where
  "main hp0 env =
     (let seeded = [TorchManualSeed (random_seed hp0), NumpyRandomSeed (random_seed hp0),
                    SetDefaultTensorType (tensor_type hp0)];
          hp = hp0\<lparr>exp_path := path_join (exp_path hp0) (''exp'' @ str_int (exp_id hp0))\<rparr>;
          loaded = seeded @ [MakeDirs (exp_path hp), DataLoaderInit]
      in case loader_d env of
           None \<Rightarrow> (loaded, Inl (ExternalFailure ''DataLoader''))
         | Some d \<Rightarrow>
             (case num_input hp d of
                Inl e \<Rightarrow> (loaded, Inl e)
              | Inr n \<Rightarrow>
                  (let trained = loaded @
                         [ModelInit (latent hp) n,
                          MakeDirs (path_join (exp_path hp) ''train''),
                          WriteParams (path_join (exp_path hp) ''params.json'') hp,
                          TrainWithQPM]
                   in if \<not> train_returns env
                      then (trained, Inl (ExternalFailure ''train_with_QPM''))
                      else (case save_results hp env of
                              (evs, r) \<Rightarrow> (trained @ evs, r)))))"

text \<open>Lines 311-313: \<open>args = assert_args(args); main(args)\<close>.\<close>

definition script :: "args \<Rightarrow> env \<Rightarrow> event list \<times> (error + unit)" where
  "script a env =
     (case assert_args a of
        Inl e \<Rightarrow> ([], Inl e)
      | Inr (a', ws) \<Rightarrow> (case main a' env of (evs, r) \<Rightarrow> (map Warn ws @ evs, r)))"

text \<open>Two runs of the script, used to evaluate it: a configuration with a ground truth,
  an environment in which an operator resumes the debugger, and one in which the job is
  unattended and the debugger session ends at once.\<close>

definition example_args :: args where
  "example_args =
     \<lparr>no_gt = False, debug_gt_graph = False, debug_gt_z = False, debug_gt_w = False,
      latent = False, d_z = None, d_x = None,
      ratio_train = Some (FloatNum (Finite double_0_8)), ratio_valid = Some (IntNum 0),
      data_format = Some ''numpy'', optimizer = Some ''rmsprop'', instantaneous = True,
      tau = Some 3, tau_neigh = Some 1, random_seed = Some 1, gpu = False, float = False,
      exp_path = ''causal_climate_exp'', exp_id = Some 7\<rparr>"

definition attended_env :: env where
  "attended_env =
     \<lparr>loader_d = Some 2, train_returns = True, ipdb = Resume,
      edge_errors = [(''tp'', 3), (''fp'', 1)], shd = 1, f1_score = 0.75\<rparr>"

definition unattended_env :: env where
  "unattended_env = attended_env\<lparr>ipdb := Quit\<rparr>"

section \<open>main.py: merging the configuration file\<close>

text \<open>
  Lines 285-295. \<open>vars(args)\<close> is a dictionary from option names to values; the file is a
  JSON object, a list of key-value pairs with distinct keys.
\<close>

datatype pyval = PyNone | PyBool bool | PyInt int | PyFloat real | PyStr string

fun truthy :: "pyval \<Rightarrow> bool" where
  "truthy PyNone = False"
| "truthy (PyBool b) = b"
| "truthy (PyInt i) = (i \<noteq> 0)"
| "truthy (PyFloat r) = (r \<noteq> 0)"
| "truthy (PyStr s) = (s \<noteq> [])"

text \<open>
  \<^verbatim>\<open>for key, val in params.items():
      if default_params[key] is None or not default_params[key]:
          default_params[key] = val\<close>
\<close>

fun update_params :: "(string \<rightharpoonup> pyval) \<Rightarrow> (string \<times> pyval) list \<Rightarrow> error + (string \<rightharpoonup> pyval)" where
  "update_params default_params [] = Inr default_params"
| "update_params default_params ((key, val) # rest) =
     (case default_params key of
        None \<Rightarrow> Inl (KeyError key)
      | Some cur \<Rightarrow>
          if cur = PyNone \<or> \<not> truthy cur
          then update_params (default_params(key \<mapsto> val)) rest
          else update_params default_params rest)"

text \<open>\<open>if args.config_path != "": ...\<close>; \<open>config_path\<close> always is an attribute of the parsed arguments.\<close>

definition load_config :: "(string \<rightharpoonup> pyval) \<Rightarrow> (string \<times> pyval) list \<Rightarrow> error + (string \<rightharpoonup> pyval)" where
  "load_config a params =
     (case a ''config_path'' of
        None \<Rightarrow> Inl AttributeError
      | Some p \<Rightarrow> if p \<noteq> PyStr [] then update_params a params else Inr a)"

text \<open>
  Lines 297-309, the parameters of the data generating process. \<open>use_data_config\<close> is a
  \<open>store_true\<close> flag, a boolean, and the test \<open>args.use_data_config != ""\<close> compares it
  with a string. \<open>data_params\<close> is the content of \<open>data_params.json\<close>;
  \<open>os.path.join\<close> raises TypeError when \<open>data_path\<close> is \<open>None\<close>.
\<close>

definition apply_data_params ::
  "(string \<rightharpoonup> pyval) \<Rightarrow> (string \<times> pyval) list \<Rightarrow> error + (string \<rightharpoonup> pyval)" where
  "apply_data_params a data_params =
     (case a ''use_data_config'' of
        None \<Rightarrow> Inl AttributeError
      | Some u \<Rightarrow>
          if u \<noteq> PyStr []
          then (case a ''data_path'' of
                  Some (PyStr p) \<Rightarrow>
                    (case map_of data_params ''d_x'' of
                       None \<Rightarrow> Inl (KeyError ''d_x'')
                     | Some dx \<Rightarrow>
                         (case (case map_of data_params ''latent'' of
                                  None \<Rightarrow> Inr (a(''d_x'' \<mapsto> dx))
                                | Some l \<Rightarrow>
                                    if truthy l
                                    then (case map_of data_params ''d_z'' of
                                            None \<Rightarrow> Inl (KeyError ''d_z'')
                                          | Some dz \<Rightarrow>
                                              Inr (a(''d_x'' \<mapsto> dx, ''latent'' \<mapsto> l, ''d_z'' \<mapsto> dz)))
                                    else Inr (a(''d_x'' \<mapsto> dx, ''latent'' \<mapsto> l))) of
                            Inl e \<Rightarrow> Inl e
                          | Inr a1 \<Rightarrow>
                              (let a2 = (case map_of data_params ''tau'' of
                                           None \<Rightarrow> a1 | Some t \<Rightarrow> a1(''tau'' \<mapsto> t));
                                   a3 = (case map_of data_params ''neighborhood'' of
                                           None \<Rightarrow> a2 | Some n \<Rightarrow> a2(''tau_neigh'' \<mapsto> n))
                               in Inr a3)))
                | _ \<Rightarrow> Inl TypeError)
          else Inr a)"

text \<open>Lines 283-309: the hyperparameters that reach \<open>assert_args\<close> and \<open>main\<close>.\<close>

definition resolve ::
  "(string \<rightharpoonup> pyval) \<Rightarrow> (string \<times> pyval) list \<Rightarrow> (string \<times> pyval) list
     \<Rightarrow> error + (string \<rightharpoonup> pyval)" where
  "resolve a params data_params =
     (case load_config a params of
        Inl e \<Rightarrow> Inl e
      | Inr a1 \<Rightarrow> apply_data_params a1 data_params)"

text \<open>
  What the loop computes, key by key: a value of the parsed arguments that is truthy
  stays; a value that is \<open>None\<close> or falsy (\<open>False\<close>, \<open>0\<close>, \<open>0.0\<close>, the empty string) is
  replaced by the value of the file, when the file names the key.
\<close>

definition merged :: "(string \<rightharpoonup> pyval) \<Rightarrow> (string \<times> pyval) list \<Rightarrow> (string \<rightharpoonup> pyval)" where
  "merged a params key =
     (case (a key, map_of params key) of
        (Some cur, Some val) \<Rightarrow> if truthy cur then Some cur else Some val
      | (cur, _) \<Rightarrow> cur)"

section \<open>plot.py: the plotting entry point\<close>

text \<open>
  The fields of the learner that \<open>plot\<close> reads. The arrays it draws are opaque; of
  \<open>learner.adj_w_tt\<close> only the shape matters to the control flow. The drawing calls of
  matplotlib and seaborn act on a figure in memory and are not recorded: the events of
  \<open>plot\<close> are the files it saves and the debugger sessions it enters. No statement of
  plot.py assigns to the learner or to an object reached from it.
\<close>

record learner =
  train_loss_list :: "double list"
  valid_loss_list :: "double list"
  hp :: args
  latent :: bool
  iteration :: int
  adj_w_tt_shape :: "nat \<times> nat \<times> nat \<times> nat"

text \<open>The second computation runs when the first returned normally.\<close>

definition and_then ::
  "event list \<times> (error + unit) \<Rightarrow> event list \<times> (error + unit) \<Rightarrow> event list \<times> (error + unit)" where
  "and_then p q =
     (case p of
        (evs, Inl e) \<Rightarrow> (evs, Inl e)
      | (evs, Inr u) \<Rightarrow> (evs @ fst q, snd q))"

definition plot_learning_curves :: "double list \<Rightarrow> double list \<Rightarrow> string \<Rightarrow> event list \<times> (error + unit)" where
  "plot_learning_curves train_loss valid_loss path =
     (case moving_average (slice_from train_loss 10) 10 of
        Inl e \<Rightarrow> ([], Inl e)
      | Inr t_loss \<Rightarrow>
          (case moving_average (slice_from valid_loss 10) 10 of
             Inl e \<Rightarrow> ([], Inl e)
           | Inr v_loss \<Rightarrow> ([SaveFig (path_join path ''loss.png'')], Inr ())))"

definition plot_adjacency_matrix :: "string \<Rightarrow> string \<Rightarrow> event list \<times> (error + unit)" where
  "plot_adjacency_matrix path name_suffix =
     ([SaveFig (path_join path (''adjacency_'' @ name_suffix @ ''.png''))], Inr ())"

definition plot_adjacency_matrix_w :: "string \<Rightarrow> string \<Rightarrow> event list \<times> (error + unit)" where
  "plot_adjacency_matrix_w path name_suffix =
     ([SaveFig (path_join path (''adjacency_'' @ name_suffix @ ''.png''))], Inr ())"

definition plot_adjacency_through_time :: "string \<Rightarrow> string \<Rightarrow> event list \<times> (error + unit)" where
  "plot_adjacency_through_time path name_suffix =
     ([SaveFig (path_join path (''adjacency_time_'' @ name_suffix @ ''.png''))], Inr ())"

text \<open>
  The loop nest of \<open>plot_adjacency_through_time_w\<close> (lines 214-218) runs its body
  \<open>d * d_x * k_\<close> times (the last three dimensions of \<open>w_adj\<close>); the body draws one line and then calls \<open>set_trace()\<close>. A session
  that ends raises out of the loop.
\<close>

fun set_trace_loop :: "nat \<Rightarrow> debugger \<Rightarrow> event list \<times> (error + unit)" where
  "set_trace_loop 0 dbg = ([], Inr ())"
| "set_trace_loop (Suc n) dbg =
     (case dbg of
        Quit \<Rightarrow> ([SetTrace], Inl BdbQuit)
      | Resume \<Rightarrow> (case set_trace_loop n dbg of (evs, r) \<Rightarrow> (SetTrace # evs, r)))"

definition plot_adjacency_through_time_w ::
  "nat \<times> nat \<times> nat \<times> nat \<Rightarrow> debugger \<Rightarrow> string \<Rightarrow> string \<Rightarrow> event list \<times> (error + unit)" where
  "plot_adjacency_through_time_w shape dbg path name_suffix =
     (case shape of
        (n, d, dx, k) \<Rightarrow>
          and_then (set_trace_loop (d * dx * k) dbg)
            ([SaveFig (path_join path (''adjacency_time_'' @ name_suffix @ ''.png''))], Inr ()))"

definition plot :: "learner \<Rightarrow> debugger \<Rightarrow> event list \<times> (error + unit)" where
  "plot lrn dbg =
     and_then (plot_learning_curves (train_loss_list lrn) (valid_loss_list lrn) (exp_path (hp lrn)))
    (and_then (plot_adjacency_matrix (exp_path (hp lrn)) ''transition'')
    (and_then (plot_adjacency_through_time (exp_path (hp lrn)) ''transition'')
       (if learner.latent lrn
        then and_then (plot_adjacency_matrix_w (exp_path (hp lrn)) ''w'')
               (plot_adjacency_through_time_w (adj_w_tt_shape lrn) dbg (exp_path (hp lrn)) ''w'')
        else ([], Inr ()))))"

definition latent_learner :: learner where
  "latent_learner =
     \<lparr>train_loss_list = [Finite 5, Finite 4, Finite 3], valid_loss_list = [Finite 6, Finite 5],
      hp = example_args\<lparr>args.latent := True, d_z := Some (IntNum 3), d_x := Some (IntNum 2)\<rparr>,
      latent = True, iteration = 100, adj_w_tt_shape = (1000, 1, 2, 3)\<rparr>"

section \<open>convert\_netcdf\_files.py: the two conversion paths\<close>

text \<open>
  A NetCDF file as \<open>xr.open_dataset(...).to_dataframe().reset_index()\<close> shows it: the
  names of the data variables (the columns other than \<open>time\<close>, \<open>lat\<close>, \<open>lon\<close>), one
  observation per row (time in seconds, latitude, longitude, one value per variable), and
  the global attributes. A data frame keeps the selected feature names and its rows.
  Values are real numbers.
\<close>

type_synonym attrs = "(string \<times> string) list"

type_synonym observation = "int \<times> real \<times> real \<times> real list"

record netcdf =
  variables :: "string list"
  observations :: "observation list"
  global_attrs :: attrs

record dataframe =
  features :: "string list"
  rows :: "observation list"

fun index_of :: "string list \<Rightarrow> string \<Rightarrow> nat option" where
  "index_of [] f = None"
| "index_of (v # vs) f = (if v = f then Some 0 else map_option Suc (index_of vs f))"

text \<open>Selecting columns by name; a name that is no column raises KeyError.\<close>

fun select_columns :: "string list \<Rightarrow> string list \<Rightarrow> error + nat list" where
  "select_columns vs [] = Inr []"
| "select_columns vs (f # fs) =
     (case index_of vs f of
        None \<Rightarrow> Inl (KeyError f)
      | Some i \<Rightarrow> (case select_columns vs fs of Inl e \<Rightarrow> Inl e | Inr is \<Rightarrow> Inr (i # is)))"

definition project :: "nat list \<Rightarrow> observation \<Rightarrow> observation" where
  "project is r = (case r of (t, lat, lon, vs) \<Rightarrow> (t, lat, lon, map (\<lambda>i. vs ! i) is))"

definition mean :: "real list \<Rightarrow> real" where
  "mean xs = sum_list xs / real (length xs)"

text \<open>
  \<open>df.groupby([pd.Grouper(key='time', freq=...), "lat", "lon"])[features_name].mean().reset_index()\<close>:
  one row per group that occurs, in ascending order of (period, lat, lon), holding the mean
  of each feature over the group. \<open>label\<close> maps a time to the label of its period.
\<close>

definition group_mean :: "(int \<Rightarrow> int) \<Rightarrow> nat \<Rightarrow> observation list \<Rightarrow> observation list" where
  "group_mean label n rs =
     (let keyed = map (\<lambda>(t, lat, lon, vs). ((label t, lat, lon), vs)) rs;
          keys = sort (remdups (map fst keyed))
      in map (\<lambda>k. case k of (t, lat, lon) \<Rightarrow>
                (t, lat, lon,
                 map (\<lambda>c. mean (map (\<lambda>(k', vs). vs ! c) (filter (\<lambda>(k', vs). k' = k) keyed)))
                   [0..<n]))
           keys)"

text \<open>
  \<open>convert_netcdf_to_pandas\<close> (lines 13-45). The calendar of pandas is external:
  \<open>grouper freq\<close> is the period label that \<open>pd.Grouper(key='time', freq=freq)\<close> gives a
  time. With no feature named, all data variables are taken (the source builds the list
  from a set, so its order is not fixed; the model takes the column order).
\<close>

definition convert_netcdf_to_pandas ::
  "(string \<Rightarrow> int \<Rightarrow> int) \<Rightarrow> netcdf \<Rightarrow> string list \<Rightarrow> string
     \<Rightarrow> error + dataframe \<times> attrs \<times> string list" where
  "convert_netcdf_to_pandas grouper ds features_name frequency =
     (let features_name = (if features_name = [] then variables ds else features_name) in
      if frequency \<noteq> ''day'' \<and> frequency \<noteq> ''week'' \<and> frequency \<noteq> ''month''
      then Inl (ValueError FrequencyNotImplemented)
      else
        (case select_columns (variables ds) features_name of
           Inl e \<Rightarrow> Inl e
         | Inr is \<Rightarrow>
             (let selected = map (project is) (observations ds);
                  df = (if frequency = ''day'' then selected
                        else if frequency = ''week''
                        then group_mean (grouper ''W'') (length features_name) selected
                        else group_mean (grouper ''M'') (length features_name) selected)
              in Inr (\<lparr>features = features_name, rows = df\<rparr>, global_attrs ds, features_name))))"

text \<open>\<open>df.values\<close>: the columns are timestamp, lat, lon and the features.\<close>

definition df_values :: "dataframe \<Rightarrow> real list list" where
  "df_values df = map (\<lambda>(t, lat, lon, vs). real_of_int t # lat # lon # vs) (rows df)"

text \<open>
  What a conversion leaves on disk: the array (its number of columns and its rows) and
  the metadata record.
\<close>

record persisted =
  ncols :: nat
  data :: "real list list"
  metadata :: attrs

text \<open>
  The loop of \<open>main_numpy\<close> (lines 73-83) over the files in sorted order, with the
  variables \<open>df\<close>, \<open>metadata\<close> and \<open>features_name\<close> it assigns. \<open>pd.concat\<close> aligns
  columns by name; the frames of one run have the same columns unless an earlier file has
  no data variable at all, which the model reports as a failure of the external call.
\<close>

fun numpy_loop ::
  "(string \<Rightarrow> int \<Rightarrow> int) \<Rightarrow> netcdf list \<Rightarrow> string list \<Rightarrow> string
     \<Rightarrow> (dataframe \<times> attrs) option \<Rightarrow> error + (dataframe \<times> attrs) option" where
  "numpy_loop grouper [] features_name frequency st = Inr st"
| "numpy_loop grouper (file # files) features_name frequency st =
     (case convert_netcdf_to_pandas grouper file features_name frequency of
        Inl e \<Rightarrow> Inl e
      | Inr (df_temp, md, features_name') \<Rightarrow>
          (case st of
             None \<Rightarrow> numpy_loop grouper files features_name' frequency (Some (df_temp, md))
           | Some (df, old) \<Rightarrow>
               if features df = features df_temp
               then numpy_loop grouper files features_name' frequency
                      (Some (df\<lparr>rows := rows df @ rows df_temp\<rparr>, md))
               else Inl (ExternalFailure ''pd.concat'')))"

text \<open>
  \<open>main_numpy\<close> (lines 57-98): with no file, \<open>df\<close> is still \<open>None\<close> at \<open>df.values\<close>.
  The metadata saved is that of the last file.
\<close>

definition main_numpy ::
  "(string \<Rightarrow> int \<Rightarrow> int) \<Rightarrow> netcdf list \<Rightarrow> string list \<Rightarrow> string \<Rightarrow> error + persisted" where
  "main_numpy grouper netcdf_directory features_name frequency =
     (case numpy_loop grouper netcdf_directory features_name frequency None of
        Inl e \<Rightarrow> Inl e
      | Inr None \<Rightarrow> Inl AttributeError
      | Inr (Some (df, md)) \<Rightarrow>
          Inr \<lparr>ncols = 3 + length (features df), data = df_values df, metadata = md\<rparr>)"

text \<open>
  The loop of \<open>main_hdf5\<close> (lines 118-149). The call of line 121 passes no frequency, so
  \<open>convert_netcdf_to_pandas\<close> runs with its default \<open>"day"\<close>. The first file creates the
  array and the metadata record; a later file is appended, which the table refuses when
  the number of columns differs.
\<close>

fun hdf5_loop ::
  "(string \<Rightarrow> int \<Rightarrow> int) \<Rightarrow> netcdf list \<Rightarrow> string list \<Rightarrow> persisted option
     \<Rightarrow> error + persisted option" where
  "hdf5_loop grouper [] features_name st = Inr st"
| "hdf5_loop grouper (file # files) features_name st =
     (case convert_netcdf_to_pandas grouper file features_name ''day'' of
        Inl e \<Rightarrow> Inl e
      | Inr (df, md, features_name') \<Rightarrow>
          (case st of
             None \<Rightarrow>
               hdf5_loop grouper files features_name'
                 (Some \<lparr>ncols = 3 + length (features df), data = df_values df, metadata = md\<rparr>)
           | Some p \<Rightarrow>
               if ncols p = 3 + length (features df)
               then hdf5_loop grouper files features_name' (Some (p\<lparr>data := data p @ df_values df\<rparr>))
               else Inl (ExternalFailure ''EArray.append'')))"

text \<open>
  \<open>main_hdf5\<close> (lines 101-159): with no file, \<open>data_path\<close> is unbound at the reading test
  after the loop. The parameter \<open>frequency\<close> is not used.
\<close>

definition main_hdf5 ::
  "(string \<Rightarrow> int \<Rightarrow> int) \<Rightarrow> netcdf list \<Rightarrow> string list \<Rightarrow> string \<Rightarrow> error + persisted" where
  "main_hdf5 grouper netcdf_directory features_name frequency =
     (case hdf5_loop grouper netcdf_directory features_name None of
        Inl e \<Rightarrow> Inl e
      | Inr None \<Rightarrow> Inl UnboundLocalError
      | Inr (Some p) \<Rightarrow> Inr p)"

text \<open>
  For daily data the two loops stay in step: the table holds the values of the frame
  accumulated so far.
\<close>

fun in_step :: "(dataframe \<times> attrs) option \<Rightarrow> persisted option \<Rightarrow> bool" where
  "in_step None None = True"
| "in_step (Some (df, md)) (Some p) =
     (data p = df_values df \<and> ncols p = 3 + length (features df))"
| "in_step st st' = False"

text \<open>
  The weekly periods of pandas (\<open>freq="W"\<close>, weeks ending on Sunday, labelled by that
  Sunday): day 3 after the epoch, 4 January 1970, was a Sunday. A file with two daily
  observations of one grid cell, on Monday 5 and Tuesday 6 January 1970.
\<close>

definition week_ending_sunday :: "int \<Rightarrow> int" where
  "week_ending_sunday t = (let day = t div 86400 in (day + (3 - day) mod 7) * 86400)"

definition two_days :: netcdf where
  "two_days =
     \<lparr>variables = [''shum''],
      observations = [(345600, 0, 0, [1]), (432000, 0, 0, [3])],
      global_attrs = [(''title'', ''4x daily NMC reanalysis'')]\<rparr>"

section \<open>The penalty scheduler\<close>

text \<open>
  Modelled from the spec: the training files of the causal model (\<open>train.py\<close>,
  \<open>train_latent.py\<close>, with \<open>train_with_QPM\<close>) are not among the sources; the scheduler
  below follows section 4.2 of the specification. The specification does not say how the
  relative change of \<open>h\<close> over the recent window is computed, so that measure is a
  parameter \<open>rel_change\<close> of the scheduler, applied to the rolling history.
\<close>

record constraint =
  mu :: real
  h_history :: "real list"
  iter_since_tightening :: nat
  h_reference :: real
  decrease_was_sufficient :: "bool option"
  window :: nat
  omega_gamma :: real
  omega_mu :: real
  h_threshold :: real
  min_iter_convergence :: nat
  mu_mult_factor :: real

text \<open>The short rolling history keeps the last \<open>w\<close> values.\<close>

definition rolling :: "nat \<Rightarrow> real list \<Rightarrow> real list" where
  "rolling w hs = drop (length hs - w) hs"

text \<open>
  Modelled from the spec: the sub-problem convergence check, "only evaluated after
  \<open>min_iter_convergence\<close> iterations since the last tightening: declare converged when
  the relative change of \<open>h\<close> over the recent window falls below \<open>omega_gamma\<close>".
\<close>

definition subproblem_converged :: "(real list \<Rightarrow> real) \<Rightarrow> constraint \<Rightarrow> bool" where
  "subproblem_converged rel_change c =
     (min_iter_convergence c \<le> iter_since_tightening c \<and>
      rel_change (h_history c) < omega_gamma c)"

text \<open>
  Modelled from the spec: one iteration of a constraint. The value \<open>h\<close> is appended to
  the history; on convergence \<open>mu\<close> is multiplied by \<open>mu_mult_factor\<close> in both branches
  (the branch taken is kept for diagnostics), the iteration counter is reset and \<open>h\<close>
  becomes the reference value.
\<close>

definition scheduler_update :: "(real list \<Rightarrow> real) \<Rightarrow> constraint \<Rightarrow> real \<Rightarrow> constraint" where
  "scheduler_update rel_change c h =
     (let c1 = c\<lparr>h_history := rolling (window c) (h_history c @ [h]),
                 iter_since_tightening := iter_since_tightening c + 1\<rparr>
      in if subproblem_converged rel_change c1
         then (if h \<le> omega_mu c1 * h_reference c1
               then c1\<lparr>mu := mu c1 * mu_mult_factor c1, decrease_was_sufficient := Some True,
                       iter_since_tightening := 0, h_reference := h\<rparr>
               else c1\<lparr>mu := mu c1 * mu_mult_factor c1, decrease_was_sufficient := Some False,
                       iter_since_tightening := 0, h_reference := h\<rparr>)
         else c1)"

text \<open>Modelled from the spec: the global stop condition of a constraint.\<close>

definition constraint_satisfied :: "constraint \<Rightarrow> real \<Rightarrow> bool" where
  "constraint_satisfied c h = (h \<le> h_threshold c)"

fun run_scheduler :: "(real list \<Rightarrow> real) \<Rightarrow> constraint \<Rightarrow> real list \<Rightarrow> constraint" where
  "run_scheduler rel_change c [] = c"
| "run_scheduler rel_change c (h # hs) = run_scheduler rel_change (scheduler_update rel_change c h) hs"

text \<open>
  A measure of relative change and a constraint to run the scheduler on: the change from
  the oldest to the newest value of the window, relative to the oldest (a window with a
  single value has not changed yet and counts as not converged).
\<close>

definition first_to_last_change :: "real list \<Rightarrow> real" where
  "first_to_last_change hs =
     (if length hs < 2 then 1 else \<bar>last hs - hd hs\<bar> / \<bar>hd hs\<bar>)"

definition fresh_constraint :: constraint where
  "fresh_constraint =
     \<lparr>mu = 1, h_history = [], iter_since_tightening = 0, h_reference = 10,
      decrease_was_sufficient = None, window = 2, omega_gamma = 0.1, omega_mu = 0.9,
      h_threshold = 0.001, min_iter_convergence = 2, mu_mult_factor = 2\<rparr>"

section \<open>Properties of rounding\<close>




lemma floor_log2:
  assumes "2 powi e \<le> x" and "x < 2 powi (e + 1)"
  shows "\<lfloor>log 2 x\<rfloor> = e"
proof -
  have pos: "0 < x"
    using assms(1) by (smt (verit) zero_less_power_int)
  have a: "2 powr real_of_int e = 2 powi e"
    by (simp add: powr_real_of_int')
  have "2 powr (real_of_int e + 1) = 2 powr real_of_int (e + 1)"
    by simp
  also have "\<dots> = 2 powi (e + 1)"
    by (rule powr_real_of_int') simp_all
  finally have "2 powr real_of_int e \<le> x \<and> x < 2 powr (real_of_int e + 1)"
    using assms a by simp
  then show ?thesis
    using pos by (simp add: floor_log_eq_powr_iff)
qed

text \<open>Rounding a value whose binade is known: the tool to evaluate \<open>round64\<close>.\<close>

lemma round64_at:
  assumes "2 powi e \<le> \<bar>x\<bar>" and "\<bar>x\<bar> < 2 powi (e + 1)" and "- 1022 \<le> e"
  shows "round64 x = of_int (rhe (x / 2 powi (e - 52))) * 2 powi (e - 52)"
  using floor_log2 [OF assms(1,2)] assms(3) by (simp add: round64_def Let_def max_def)


lemma round64_1: "round64 1 = 1"
  by (simp add: round64_at [of 0] power_int_minus_divide rhe_def)






lemma overflow_small: "\<bar>r\<bar> \<le> 2 \<Longrightarrow> overflow r = Finite r"
  by (auto simp add: overflow_def abs_le_iff)

section \<open>Properties of moving_average\<close>









section \<open>Properties of the validation (assert\_args)\<close>

lemma selectors_iff:
  "(\<exists>m. check_selectors a = Inl (ValueError m)) \<longleftrightarrow>
     (data_format a \<notin> {Some ''numpy'', Some ''hdf5''} \<or>
      optimizer a \<notin> {Some ''sgd'', Some ''rmsprop''})"
  by (auto simp add: check_selectors_def supported_dataformat_def supported_optimizer_def
      split: option.splits)

lemma selectors_ok:
  assumes "data_format a \<in> {Some ''numpy'', Some ''hdf5''}"
    and "optimizer a \<in> {Some ''sgd'', Some ''rmsprop''}"
  shows "check_selectors a = Inr (a, warnings_of a)"
  using assms
  by (auto simp add: check_selectors_def supported_dataformat_def supported_optimizer_def
      split: option.splits)



text \<open>The derivation changes no field but \<open>ratio_valid\<close>.\<close>

lemma derive_ratio_valid_fields:
  assumes "derive_ratio_valid a = Inr a1"
  shows "\<exists>v. a1 = a\<lparr>ratio_valid := v\<rparr>"
proof (cases "case ratio_valid a of None \<Rightarrow> False | Some v \<Rightarrow> py_eq v (IntNum 0)")
  case True
  with assms obtain v where "a1 = a\<lparr>ratio_valid := Some v\<rparr>"
    by (auto simp add: derive_ratio_valid_def split: sum.splits)
  then show ?thesis by blast
next
  case False
  with assms have "a1 = a\<lparr>ratio_valid := ratio_valid a\<rparr>"
    by (simp add: derive_ratio_valid_def)
  then show ?thesis by blast
qed

text \<open>When Python can derive and add the ratios, \<open>assert_args\<close> is a chain of five checks.\<close>

lemma assert_args_chain:
  assumes "derive_ratio_valid a = Inr a1" and "ratio_sum a1 = Inr tot"
  shows "assert_args a =
     (if no_gt a \<and> (debug_gt_graph a \<or> debug_gt_z a \<or> debug_gt_w a)
      then Inl (ValueError GtWithNoGt)
      else if args.latent a \<and>
              (d_z a = None \<or> d_x a = None \<or> not_positive (d_z a) \<or> not_positive (d_x a))
      then Inl (ValueError LatentDims)
      else if py_lt (IntNum 1) tot then Inl (ValueError RatioSum)
      else check_selectors a1)"
  using assms by (auto simp add: assert_args_def)

lemma not_positive_int:
  assumes "int_or_missing v"
  shows "(v = None \<or> not_positive v) = missing_or_not_positive_integer v"
  using assms
  by (auto simp add: int_or_missing_def not_positive_def missing_or_not_positive_integer_def
      py_le_def py_lt_def py_eq_def exact_def split: option.splits pynum.splits)


text \<open>Ratios that are both floats, or both ints, can always be derived and added.\<close>

lemma ratios_computable:
  assumes "(\<exists>x y. ratio_train a = Some (FloatNum x) \<and> ratio_valid a = Some (FloatNum y)) \<or>
           (\<exists>i j. ratio_train a = Some (IntNum i) \<and> ratio_valid a = Some (IntNum j))"
  shows "\<exists>a1 tot. derive_ratio_valid a = Inr a1 \<and> ratio_sum a1 = Inr tot"
  using assms
  by (auto simp add: derive_ratio_valid_def ratio_sum_def py_sub_def py_add_def py_arith_def
      to_float_def round64_1 overflow_def)

text \<open>
  C1, as the code has it. Provided Python can derive and add the ratios (neither is
  missing, and an int ratio is not too large to be added to a float one) and \<open>d_z\<close>,
  \<open>d_x\<close> are each missing or an int: \<open>assert_args\<close> raises a ValueError (the
  specification's ConfigurationError) if and only if, after the derived \<open>ratio_valid\<close> is
  filled in, one of the listed invalid combinations holds, the sum of the ratios being the
  one Python computes; with no such combination it returns the configuration with the
  derived value; and when it raises, no event of the run has happened: the DataLoader was
  not constructed.
\<close>

theorem assert_args_validation:
  assumes d: "derive_ratio_valid a = Inr a1" and s: "ratio_sum a1 = Inr tot"
    and iz: "int_or_missing (d_z a)" and ix: "int_or_missing (d_x a)"
  shows "((\<exists>m. assert_args a = Inl (ValueError m)) \<longleftrightarrow> invalid_combination a) \<and>
         (\<not> invalid_combination a \<longrightarrow> (\<exists>ws. assert_args a = Inr (a1, ws))) \<and>
         (invalid_combination a \<longrightarrow> fst (script a w) = [])"
proof -
  from derive_ratio_valid_fields [OF d] obtain v where a1: "a1 = a\<lparr>ratio_valid := v\<rparr>"
    by blast
  have ex: "ratios_exceed_one a = py_lt (IntNum 1) tot"
    using d s by (simp add: ratios_exceed_one_def)
  have lat: "(d_z a = None \<or> d_x a = None \<or> not_positive (d_z a) \<or> not_positive (d_x a)) =
        (missing_or_not_positive_integer (d_z a) \<or> missing_or_not_positive_integer (d_x a))"
    using not_positive_int [OF iz] not_positive_int [OF ix] by blast
  have sel: "(\<exists>m. check_selectors a1 = Inl (ValueError m)) \<longleftrightarrow>
     (data_format a \<notin> {Some ''numpy'', Some ''hdf5''} \<or>
      optimizer a \<notin> {Some ''sgd'', Some ''rmsprop''})"
    using selectors_iff [of a1] by (simp add: a1)
  have iff: "(\<exists>m. assert_args a = Inl (ValueError m)) \<longleftrightarrow> invalid_combination a"
    unfolding assert_args_chain [OF d s] lat invalid_combination_def ex
    using sel by auto
  have ok: "\<exists>ws. assert_args a = Inr (a1, ws)" if "\<not> invalid_combination a"
  proof -
    have "check_selectors a1 = Inr (a1, warnings_of a1)"
      using that by (intro selectors_ok) (simp_all add: invalid_combination_def a1)
    then show ?thesis
      using that unfolding assert_args_chain [OF d s] lat invalid_combination_def ex
      by auto
  qed
  have quiet: "fst (script a w) = []" if "invalid_combination a"
  proof -
    from that iff obtain m where "assert_args a = Inl (ValueError m)"
      by blast
    then show ?thesis
      by (simp add: script_def)
  qed
  from iff ok quiet show ?thesis
    by blast
qed

text \<open>The float64 operations on the ratios of the evaluations below.\<close>

lemma round64_ratios:
  "round64 double_1_minus_0_8 = double_1_minus_0_8"
  "1 - double_0_8 = double_1_minus_0_8"
  "double_0_8 + double_1_minus_0_8 = 1"
  "round64 (9007199254740993 / 9007199254740992) = 1"
  "round64 (9907919180215091 / 4503599627370496) = 2476979795053773 / 1125899906842624"
  "round64 (4503599627370497 / 4503599627370496) = 4503599627370497 / 4503599627370496"
  by (simp_all add: double_1_minus_0_8_def double_0_8_def round64_at [of "- 3"]
      round64_at [of 0] round64_at [of 1] power_int_minus_divide rhe_def)


lemma example_ratios:
  assumes "ratio_train b = Some (FloatNum (Finite double_0_8))"
    and "ratio_valid b = Some (IntNum 0)"
  shows "derive_ratio_valid b = Inr (b\<lparr>ratio_valid := Some (FloatNum (Finite double_1_minus_0_8))\<rparr>)"
    and "ratio_sum (b\<lparr>ratio_valid := Some (FloatNum (Finite double_1_minus_0_8))\<rparr>) =
           Inr (FloatNum (Finite 1))"
proof -
  have small: "\<bar>double_1_minus_0_8\<bar> \<le> 2"
    by (simp add: double_1_minus_0_8_def)
  show "derive_ratio_valid b = Inr (b\<lparr>ratio_valid := Some (FloatNum (Finite double_1_minus_0_8))\<rparr>)"
    using assms small
    by (simp add: derive_ratio_valid_def py_eq_def exact_def py_sub_def py_arith_def to_float_def
        fsub_def round64_1 round64_ratios overflow_small)
  show "ratio_sum (b\<lparr>ratio_valid := Some (FloatNum (Finite double_1_minus_0_8))\<rparr>) =
           Inr (FloatNum (Finite 1))"
    using assms
    by (simp add: ratio_sum_def py_add_def py_arith_def to_float_def round64_1 round64_ratios
        overflow_small)
qed

lemma example_args_valid: "\<not> invalid_combination example_args"
  using example_ratios [of example_args]
  by (simp add: invalid_combination_def ratios_exceed_one_def py_lt_def exact_def
      example_args_def)

lemma assert_args_example:
  "assert_args example_args =
     Inr (example_args\<lparr>ratio_valid := Some (FloatNum (Finite double_1_minus_0_8))\<rparr>, [])"
  using example_ratios [of example_args]
  by (simp add: assert_args_def py_lt_def exact_def check_selectors_def warnings_of_def
      supported_dataformat_def supported_optimizer_def example_args_def)

theorem assert_args_validation_witness:
  "derive_ratio_valid example_args =
     Inr (example_args\<lparr>ratio_valid := Some (FloatNum (Finite double_1_minus_0_8))\<rparr>) \<and>
   ratio_sum (example_args\<lparr>ratio_valid := Some (FloatNum (Finite double_1_minus_0_8))\<rparr>) =
     Inr (FloatNum (Finite 1)) \<and>
   int_or_missing (d_z example_args) \<and> int_or_missing (d_x example_args) \<and>
   \<not> invalid_combination example_args \<and>
   (\<exists>ws. assert_args example_args =
      Inr (example_args\<lparr>ratio_valid := Some (FloatNum (Finite double_1_minus_0_8))\<rparr>, ws)) \<and>
   invalid_combination (example_args\<lparr>optimizer := Some ''adam''\<rparr>) \<and>
   (\<exists>m. assert_args (example_args\<lparr>optimizer := Some ''adam''\<rparr>) = Inl (ValueError m)) \<and>
   fst (script (example_args\<lparr>optimizer := Some ''adam''\<rparr>) attended_env) = []"
proof -
  let ?bad = "example_args\<lparr>optimizer := Some ''adam''\<rparr>"
  let ?v = "Some (FloatNum (Finite double_1_minus_0_8))"
  have rt: "ratio_train example_args = Some (FloatNum (Finite double_0_8))"
      "ratio_valid example_args = Some (IntNum 0)"
      "ratio_train ?bad = Some (FloatNum (Finite double_0_8))"
      "ratio_valid ?bad = Some (IntNum 0)"
    by (simp_all add: example_args_def)
  have dims: "int_or_missing (d_z example_args)" "int_or_missing (d_x example_args)"
      "int_or_missing (d_z ?bad)" "int_or_missing (d_x ?bad)"
    by (simp_all add: int_or_missing_def example_args_def)
  have bad: "invalid_combination ?bad"
    by (simp add: invalid_combination_def example_args_def)
  note good = assert_args_validation [OF example_ratios [OF rt(1,2)] dims(1,2), of attended_env]
  note fails = assert_args_validation [OF example_ratios [OF rt(3,4)] dims(3,4), of attended_env]
  show ?thesis
    using good fails bad example_args_valid example_ratios [OF rt(1,2)] dims(1,2)
    by simp
qed

text \<open>
  C1 as stated fails in two ways. Where a ratio is missing, no listed combination holds
  and yet validation fails, with a TypeError from \<open>1 - None\<close>. And the sum compared with 1
  is a float64 sum: for \<open>ratio_train = 0.5 + 2^-53\<close> and \<open>ratio_valid = 0.5\<close> the exact
  sum exceeds 1, the float64 sum is 1.0, and validation passes.
\<close>

theorem validation_counterexamples:
  "\<not> invalid_combination (example_args\<lparr>ratio_train := None\<rparr>) \<and>
   assert_args (example_args\<lparr>ratio_train := None\<rparr>) = Inl TypeError \<and>
   (1::real) < 4503599627370497 / 9007199254740992 + 1 / 2 \<and>
   assert_args
     (example_args\<lparr>ratio_train := Some (FloatNum (Finite (4503599627370497 / 9007199254740992))),
                   ratio_valid := Some (FloatNum (Finite (1 / 2)))\<rparr>) =
     Inr (example_args\<lparr>ratio_train := Some (FloatNum (Finite (4503599627370497 / 9007199254740992))),
                       ratio_valid := Some (FloatNum (Finite (1 / 2)))\<rparr>, [])"
proof -
  have missing: "\<not> invalid_combination (example_args\<lparr>ratio_train := None\<rparr>) \<and>
      assert_args (example_args\<lparr>ratio_train := None\<rparr>) = Inl TypeError"
    by (simp add: invalid_combination_def ratios_exceed_one_def assert_args_def
        derive_ratio_valid_def py_eq_def exact_def py_sub_def py_arith_def example_args_def)
  have rounded: "assert_args
     (example_args\<lparr>ratio_train := Some (FloatNum (Finite (4503599627370497 / 9007199254740992))),
                   ratio_valid := Some (FloatNum (Finite (1 / 2)))\<rparr>) =
     Inr (example_args\<lparr>ratio_train := Some (FloatNum (Finite (4503599627370497 / 9007199254740992))),
                       ratio_valid := Some (FloatNum (Finite (1 / 2)))\<rparr>, [])"
    by (simp add: assert_args_def derive_ratio_valid_def ratio_sum_def py_eq_def py_lt_def exact_def
        py_add_def py_arith_def to_float_def round64_ratios overflow_def check_selectors_def
        warnings_of_def supported_dataformat_def supported_optimizer_def example_args_def)
  from missing rounded show ?thesis
    by simp
qed




section \<open>Properties of the run (main.py)\<close>

lemma main_events:
  "fst (main a w) =
     [TorchManualSeed (random_seed a), NumpyRandomSeed (random_seed a),
      SetDefaultTensorType (tensor_type a),
      MakeDirs (path_join (exp_path a) (''exp'' @ str_int (exp_id a))), DataLoaderInit] @
     (case loader_d w of
        None \<Rightarrow> []
      | Some d \<Rightarrow>
          (case num_input a d of
             Inl e \<Rightarrow> []
           | Inr n \<Rightarrow>
               [ModelInit (args.latent a) n,
                MakeDirs (path_join (path_join (exp_path a) (''exp'' @ str_int (exp_id a))) ''train''),
                WriteParams
                  (path_join (path_join (exp_path a) (''exp'' @ str_int (exp_id a))) ''params.json'')
                  (a\<lparr>exp_path := path_join (exp_path a) (''exp'' @ str_int (exp_id a))\<rparr>),
                TrainWithQPM] @
               (if train_returns w
                then fst (save_results
                            (a\<lparr>exp_path := path_join (exp_path a) (''exp'' @ str_int (exp_id a))\<rparr>) w)
                else [])))"
  by (simp add: main_def Let_def num_input_def split: option.splits sum.splits prod.splits)

lemma save_results_no_model_init: "filter is_model_init (fst (save_results a w)) = []"
  by (simp add: save_results_def split: debugger.splits)

lemma save_results_no_seed: "filter is_seed (fst (save_results a w)) = []"
  by (simp add: save_results_def split: debugger.splits)

text \<open>
  C9. Whenever the data loader returns a series of per-cell feature dimension \<open>d\<close> (and
  \<open>tau\<close>, \<open>tau_neigh\<close> are numbers), exactly one model is constructed, and the number of
  input features it is given is \<open>d * (tau + 1) * (2 * tau_neigh + 1)\<close> with instantaneous
  connections and \<open>d * tau * (2 * tau_neigh + 1)\<close> without.
\<close>

theorem model_input_size:
  assumes "loader_d w = Some d" and "tau a = Some t" and "tau_neigh a = Some tn"
  shows "filter is_model_init (fst (main a w)) =
           [ModelInit (args.latent a)
              (if instantaneous a then d * (t + 1) * (2 * tn + 1) else d * t * (2 * tn + 1))]"
  using assms
  by (simp add: main_events num_input_def save_results_no_model_init mult.commute)

theorem model_input_size_witness:
  "loader_d attended_env = Some 2 \<and> tau example_args = Some 3 \<and> tau_neigh example_args = Some 1 \<and>
   instantaneous example_args \<and>
   filter is_model_init (fst (main example_args attended_env)) = [ModelInit False 24]"
  using model_input_size [of attended_env 2 example_args 3 1]
  by (simp add: attended_env_def example_args_def)

text \<open>
  C6. In every run of \<open>main\<close> the first two events are the seeding of torch and of numpy
  with \<open>hp.random_seed\<close>, and no later event seeds again: the construction of the
  DataLoader and of the model, like everything else, comes strictly after. For the whole
  script: either validation fails and nothing happens at all, or after the warnings the
  events of \<open>main\<close> follow, seeding first.
\<close>

theorem seeding_first:
  "(\<exists>rest. fst (main a w) =
             TorchManualSeed (random_seed a) # NumpyRandomSeed (random_seed a) # rest \<and>
           filter is_seed rest = []) \<and>
   (fst (script a w) = [] \<or>
    (\<exists>ws (a'::args) rest. fst (script a w) =
             map Warn ws @ TorchManualSeed (random_seed a') # NumpyRandomSeed (random_seed a') # rest \<and>
           filter is_seed rest = []))"
proof -
  have m: "\<exists>rest. fst (main b w) =
             TorchManualSeed (random_seed b) # NumpyRandomSeed (random_seed b) # rest \<and>
           filter is_seed rest = []" for b
    by (simp add: main_events save_results_no_seed split: option.splits sum.splits)
  have "fst (script a w) = [] \<or>
    (\<exists>ws (a'::args) rest. fst (script a w) =
             map Warn ws @ TorchManualSeed (random_seed a') # NumpyRandomSeed (random_seed a') # rest \<and>
           filter is_seed rest = [])"
  proof (cases "assert_args a")
    case (Inl e)
    then show ?thesis by (simp add: script_def)
  next
    case (Inr p)
    obtain a' ws where p: "p = (a', ws)" by (cases p)
    from m [of a'] obtain rest where
      r: "fst (main a' w) = TorchManualSeed (random_seed a') # NumpyRandomSeed (random_seed a') # rest"
      and f: "filter is_seed rest = []" by blast
    have "fst (script a w) = map Warn ws @ fst (main a' w)"
      using Inr p by (simp add: script_def split: prod.splits)
    then have "fst (script a w) =
        map Warn ws @ TorchManualSeed (random_seed a') # NumpyRandomSeed (random_seed a') # rest"
      using r by simp
    with f show ?thesis by blast
  qed
  with m [of a] show ?thesis by blast
qed

theorem seeding_first_witness:
  "fst (script example_args attended_env) =
     [TorchManualSeed (Some 1), NumpyRandomSeed (Some 1), SetDefaultTensorType ''torch.DoubleTensor'',
      MakeDirs ''causal_climate_exp/exp7'', DataLoaderInit, ModelInit False 24,
      MakeDirs ''causal_climate_exp/exp7/train'',
      WriteParams ''causal_climate_exp/exp7/params.json''
        (example_args\<lparr>ratio_valid := Some (FloatNum (Finite double_1_minus_0_8)),
                      exp_path := ''causal_climate_exp/exp7''\<rparr>),
      TrainWithQPM, SetTrace, GetAdj,
      WriteResults ''causal_climate_exp/exp7/results.json''
        [(''tp'', 3), (''fp'', 1), (''shd'', 1), (''f1'', 0.75)]]"
  using seeding_first [of example_args attended_env]
  by (simp add: script_def assert_args_example)
    (simp add: main_def num_input_def save_results_def tensor_type_def path_join_def str_int_def
      str_nat.simps attended_env_def example_args_def)

section \<open>The final results and the breakpoint (main.py, lines 125-137)\<close>

text \<open>
  When the debugger session is resumed, the results are written next to the parameters,
  which were written before training; without a ground truth no results are written.
\<close>

lemma num_input_exp_path: "num_input (a\<lparr>exp_path := p\<rparr>) d = num_input a d"
  by (simp add: num_input_def split: option.splits)

lemma results_when_resumed:
  assumes "loader_d w = Some d" and "num_input a d = Inr n" and "train_returns w"
    and "\<not> no_gt a" and "ipdb w = Resume"
    and "dir = path_join (exp_path a) (''exp'' @ str_int (exp_id a))"
  shows "main a w =
           ([TorchManualSeed (random_seed a), NumpyRandomSeed (random_seed a),
             SetDefaultTensorType (tensor_type a), MakeDirs dir, DataLoaderInit,
             ModelInit (args.latent a) n, MakeDirs (path_join dir ''train''),
             WriteParams (path_join dir ''params.json'') (a\<lparr>exp_path := dir\<rparr>), TrainWithQPM,
             SetTrace, GetAdj,
             WriteResults (path_join dir ''results.json'')
               (dict_set (dict_set (edge_errors w) ''shd'' (shd w)) ''f1'' (f1_score w))],
            Inr ())"
  using assms by (simp add: main_def Let_def save_results_def num_input_exp_path)

lemma no_results_without_ground_truth:
  assumes "no_gt a"
  shows "filter is_write_results (fst (main a w)) = []"
  using assms
  by (simp add: main_events save_results_def split: option.splits sum.splits)

text \<open>
  C4 at the failing input: a configuration with a ground truth, run unattended. Training
  is done, then the breakpoint of line 127 ends the program: no results record is written.
\<close>

theorem results_lost_at_breakpoint:
  "\<not> no_gt example_args \<and>
   script example_args unattended_env =
     ([TorchManualSeed (Some 1), NumpyRandomSeed (Some 1), SetDefaultTensorType ''torch.DoubleTensor'',
       MakeDirs ''causal_climate_exp/exp7'', DataLoaderInit, ModelInit False 24,
       MakeDirs ''causal_climate_exp/exp7/train'',
       WriteParams ''causal_climate_exp/exp7/params.json''
         (example_args\<lparr>ratio_valid := Some (FloatNum (Finite double_1_minus_0_8)),
                       exp_path := ''causal_climate_exp/exp7''\<rparr>),
       TrainWithQPM, SetTrace],
      Inl BdbQuit) \<and>
   filter is_write_results (fst (script example_args unattended_env)) = []"
  by (simp add: script_def assert_args_example)
    (simp add: main_def num_input_def save_results_def tensor_type_def path_join_def str_int_def
      str_nat.simps attended_env_def unattended_env_def example_args_def)

section \<open>Properties of the configuration merge (main.py, lines 285-295)\<close>

lemma update_params_merged:
  assumes "distinct (map fst params)" and "fst ` set params \<subseteq> dom a"
  shows "update_params a params = Inr (merged a params)"
  using assms
proof (induction params arbitrary: a)
  case Nil
  have "merged a [] = a"
    by (rule ext) (simp add: merged_def split: option.splits)
  then show ?case
    by simp
next
  case (Cons kv params)
  obtain key val where kv: "kv = (key, val)"
    by (cases kv)
  from Cons.prems kv obtain cur where cur: "a key = Some cur"
    by auto
  have fresh: "map_of params key = None"
    using Cons.prems(1) kv by (simp add: map_of_eq_None_iff)
  show ?case
  proof (cases "truthy cur")
    case True
    have "update_params a (kv # params) = update_params a params"
      using kv cur True by auto
    also have "\<dots> = Inr (merged a params)"
      using Cons.prems kv by (intro Cons.IH) auto
    also have "merged a params = merged a (kv # params)"
      using kv cur True fresh
      by (intro ext) (simp add: merged_def split: option.splits)
    finally show ?thesis .
  next
    case False
    have "update_params a (kv # params) = update_params (a(key \<mapsto> val)) params"
      using kv cur False by auto
    also have "\<dots> = Inr (merged (a(key \<mapsto> val)) params)"
      using Cons.prems kv by (intro Cons.IH) auto
    also have "merged (a(key \<mapsto> val)) params = merged a (kv # params)"
      using kv cur False fresh
      by (intro ext) (simp add: merged_def split: option.splits)
    finally show ?thesis .
  qed
qed

text \<open>
  What the merge loop does when a configuration file is given and every key it names is an
  option of the parser: a parsed value that is truthy stays, whether the user gave it or it
  is the parser's default; a parsed value that is \<open>None\<close> or falsy is replaced by the
  file's value, also when the user gave it explicitly (\<open>0\<close>, \<open>0.0\<close>, the empty string).
\<close>

lemma load_config_merged:
  assumes "a ''config_path'' = Some p" and "p \<noteq> PyStr []"
    and "distinct (map fst params)" and "fst ` set params \<subseteq> dom a"
  shows "load_config a params = Inr (merged a params)"
proof -
  have "load_config a params = update_params a params"
    using assms(1,2) by (simp add: load_config_def)
  then show ?thesis
    using update_params_merged [OF assms(3,4)] by simp
qed

text \<open>
  C2 at the failing input. The user passes \<open>--random-seed 0 --tau 3 --data-path data\<close>
  and no \<open>--use-data-config\<close>; the configuration file says \<open>random_seed: 1, tau: 5\<close>,
  and \<open>data/data_params.json\<close> says \<open>d_x: 2, tau: 1\<close>. The run uses the seed 1 of the
  file, because the explicit 0 is falsy (line 293), and the \<open>tau\<close> 1 of the data
  parameters, because the test of line 298 compares a boolean with a string and is always
  true.
\<close>

theorem explicit_values_overridden:
  "\<exists>used. resolve
       [''config_path'' \<mapsto> PyStr ''default_params.json'', ''use_data_config'' \<mapsto> PyBool False,
        ''data_path'' \<mapsto> PyStr ''data'', ''random_seed'' \<mapsto> PyInt 0, ''tau'' \<mapsto> PyInt 3,
        ''d_x'' \<mapsto> PyNone]
       [(''random_seed'', PyInt 1), (''tau'', PyInt 5)]
       [(''d_x'', PyInt 2), (''tau'', PyInt 1)] = Inr used \<and>
     used ''random_seed'' = Some (PyInt 1) \<and> used ''tau'' = Some (PyInt 1)"
  by (simp add: resolve_def load_config_def apply_data_params_def)

section \<open>Properties of the penalty scheduler\<close>

lemma rolling_snoc: "rolling n (rolling n xs @ [h]) = rolling n (xs @ [h])"
  by (cases "n \<le> length xs") (auto simp add: rolling_def Suc_diff_le)

lemma rolling_short: "length xs \<le> n \<Longrightarrow> rolling n xs = xs"
  by (simp add: rolling_def)

lemma run_scheduler_snoc:
  "run_scheduler rc c (hs @ [h]) = scheduler_update rc (run_scheduler rc c hs) h"
  by (induction hs arbitrary: c) simp_all

text \<open>
  While the convergence check fails, an iteration only extends the history and counts:
  after \<open>n\<close> such iterations the constraint is the initial one but for these two fields.
\<close>

lemma run_scheduler_waiting:
  assumes start: "iter_since_tightening c = 0" and short: "length (h_history c) \<le> window c"
    and n: "n \<le> length hs"
    and waiting: "\<forall>j. 0 < j \<and> j \<le> n \<longrightarrow>
           \<not> (min_iter_convergence c \<le> j \<and>
              rc (rolling (window c) (h_history c @ take j hs)) < omega_gamma c)"
  shows "run_scheduler rc c (take n hs) =
           c\<lparr>h_history := rolling (window c) (h_history c @ take n hs),
             iter_since_tightening := n\<rparr>"
  using n waiting
proof (induction n)
  case 0
  then show ?case
    using start short by (simp add: rolling_short)
next
  case (Suc n)
  let ?c = "c\<lparr>h_history := rolling (window c) (h_history c @ take n hs),
              iter_since_tightening := n\<rparr>"
  have n: "n < length hs"
    using Suc.prems(1) by simp
  have prev: "run_scheduler rc c (take n hs) = ?c"
    using Suc by simp
  have tk: "take (Suc n) hs = take n hs @ [hs ! n]"
    using n by (simp add: take_Suc_conv_app_nth)
  have hist: "rolling (window c) (rolling (window c) (h_history c @ take n hs) @ [hs ! n]) =
        rolling (window c) (h_history c @ take (Suc n) hs)"
    by (simp add: rolling_snoc tk)
  have no: "\<not> (min_iter_convergence c \<le> Suc n \<and>
              rc (rolling (window c) (h_history c @ take (Suc n) hs)) < omega_gamma c)"
    using Suc.prems(2) by blast
  have "run_scheduler rc c (take (Suc n) hs) = scheduler_update rc ?c (hs ! n)"
    by (simp only: tk run_scheduler_snoc prev)
  also have "\<dots> = c\<lparr>h_history := rolling (window c) (h_history c @ take (Suc n) hs),
                     iter_since_tightening := Suc n\<rparr>"
    using no by (auto simp add: scheduler_update_def subproblem_converged_def Let_def hist)
  finally show ?case .
qed

text \<open>
  C5. A constraint starts just after a tightening (counter 0, history within its window)
  and sees the values \<open>hs\<close>, one per iteration. If the relative change of the rolling
  history first falls below \<open>omega_gamma\<close> at iteration \<open>k = length hs\<close>, and \<open>k\<close> is at
  least \<open>min_iter_convergence\<close>, then \<open>mu\<close> is unchanged after each of the first \<open>k - 1\<close>
  iterations and is exactly \<open>mu * mu_mult_factor\<close> after iteration \<open>k\<close>, whether or not
  the last value is below \<open>omega_mu\<close> times the reference (only the diagnostic flag tells the
  two cases apart); the counter is reset and the last value is the new reference.
\<close>

theorem scheduler_tightens_at_k:
  assumes start: "iter_since_tightening c = 0" and short: "length (h_history c) \<le> window c"
    and k: "length hs = k" and pos: "0 < k" and late: "min_iter_convergence c \<le> k"
    and before: "\<forall>j. 0 < j \<and> j < k \<longrightarrow>
           \<not> rc (rolling (window c) (h_history c @ take j hs)) < omega_gamma c"
    and at_k: "rc (rolling (window c) (h_history c @ hs)) < omega_gamma c"
  shows "(\<forall>j < k. mu (run_scheduler rc c (take j hs)) = mu c) \<and>
         mu (run_scheduler rc c hs) = mu c * mu_mult_factor c \<and>
         iter_since_tightening (run_scheduler rc c hs) = 0 \<and>
         h_reference (run_scheduler rc c hs) = last hs \<and>
         decrease_was_sufficient (run_scheduler rc c hs) =
           Some (last hs \<le> omega_mu c * h_reference c)"
proof -
  have wait: "run_scheduler rc c (take j hs) =
           c\<lparr>h_history := rolling (window c) (h_history c @ take j hs),
             iter_since_tightening := j\<rparr>" if "j < k" for j
    using that k before
    by (intro run_scheduler_waiting [OF start short]) auto
  have unchanged: "\<forall>j < k. mu (run_scheduler rc c (take j hs)) = mu c"
    by (simp add: wait)
  let ?c = "c\<lparr>h_history := rolling (window c) (h_history c @ take (k - 1) hs),
              iter_since_tightening := k - 1\<rparr>"
  have ne: "hs \<noteq> []"
    using k pos by auto
  have split: "hs = take (k - 1) hs @ [last hs]"
    using ne k by (metis butlast_conv_take snoc_eq_iff_butlast)
  have hist: "rolling (window c) (rolling (window c) (h_history c @ take (k - 1) hs) @ [last hs]) =
        rolling (window c) (h_history c @ hs)"
    using split by (metis append.assoc rolling_snoc)
  have "run_scheduler rc c hs = scheduler_update rc (run_scheduler rc c (take (k - 1) hs)) (last hs)"
    using split run_scheduler_snoc by metis
  also have "run_scheduler rc c (take (k - 1) hs) = ?c"
    using pos by (intro wait) simp
  finally have last_step: "run_scheduler rc c hs = scheduler_update rc ?c (last hs)" .
  have conv: "subproblem_converged rc
        (?c\<lparr>h_history := rolling (window ?c) (h_history ?c @ [last hs]),
            iter_since_tightening := iter_since_tightening ?c + 1\<rparr>)"
    using pos late at_k hist by (simp add: subproblem_converged_def)
  have "mu (scheduler_update rc ?c (last hs)) = mu c * mu_mult_factor c \<and>
        iter_since_tightening (scheduler_update rc ?c (last hs)) = 0 \<and>
        h_reference (scheduler_update rc ?c (last hs)) = last hs \<and>
        decrease_was_sufficient (scheduler_update rc ?c (last hs)) =
          Some (last hs \<le> omega_mu c * h_reference c)"
    unfolding scheduler_update_def Let_def using conv by simp
  with unchanged last_step show ?thesis
    by simp
qed

theorem scheduler_tightens_at_k_witness:
  "mu (run_scheduler first_to_last_change fresh_constraint [8]) = 1 \<and>
   mu (run_scheduler first_to_last_change fresh_constraint [8, 4]) = 1 \<and>
   mu (run_scheduler first_to_last_change fresh_constraint [8, 4, 3.9]) = 2 \<and>
   iter_since_tightening (run_scheduler first_to_last_change fresh_constraint [8, 4, 3.9]) = 0 \<and>
   h_reference (run_scheduler first_to_last_change fresh_constraint [8, 4, 3.9]) = 3.9"
proof -
  have before: "\<forall>j. 0 < j \<and> j < (3::nat) \<longrightarrow>
      \<not> first_to_last_change (rolling (window fresh_constraint)
            (h_history fresh_constraint @ take j [8, 4, 3.9])) < omega_gamma fresh_constraint"
  proof (intro allI impI)
    fix j :: nat
    assume "0 < j \<and> j < 3"
    then have "j = 1 \<or> j = 2"
      by auto
    then show "\<not> first_to_last_change (rolling (window fresh_constraint)
            (h_history fresh_constraint @ take j [8, 4, 3.9])) < omega_gamma fresh_constraint"
      by (auto simp add: first_to_last_change_def rolling_def fresh_constraint_def)
  qed
  have at_k: "first_to_last_change (rolling (window fresh_constraint)
        (h_history fresh_constraint @ [8, 4, 3.9])) < omega_gamma fresh_constraint"
    by (simp add: first_to_last_change_def rolling_def fresh_constraint_def)
  have t: "take 1 [8, 4, 3.9 :: real] = [8]" "take 2 [8, 4, 3.9 :: real] = [8, 4]"
    by (simp_all add: numeral_2_eq_2)
  have l: "(1::nat) < 3" "(2::nat) < 3"
    by simp_all
  have "(\<forall>j < 3. mu (run_scheduler first_to_last_change fresh_constraint (take j [8, 4, 3.9])) =
            mu fresh_constraint) \<and>
         mu (run_scheduler first_to_last_change fresh_constraint [8, 4, 3.9]) =
           mu fresh_constraint * mu_mult_factor fresh_constraint \<and>
         iter_since_tightening (run_scheduler first_to_last_change fresh_constraint [8, 4, 3.9]) = 0 \<and>
         h_reference (run_scheduler first_to_last_change fresh_constraint [8, 4, 3.9]) = last [8, 4, 3.9] \<and>
         decrease_was_sufficient (run_scheduler first_to_last_change fresh_constraint [8, 4, 3.9]) =
           Some (last [8, 4, 3.9] \<le> omega_mu fresh_constraint * h_reference fresh_constraint)"
    using before at_k
    by (intro scheduler_tightens_at_k) (simp_all add: fresh_constraint_def)
  then have "mu (run_scheduler first_to_last_change fresh_constraint (take 1 [8, 4, 3.9])) =
            mu fresh_constraint \<and>
        mu (run_scheduler first_to_last_change fresh_constraint (take 2 [8, 4, 3.9])) =
            mu fresh_constraint \<and>
         mu (run_scheduler first_to_last_change fresh_constraint [8, 4, 3.9]) =
           mu fresh_constraint * mu_mult_factor fresh_constraint \<and>
         iter_since_tightening (run_scheduler first_to_last_change fresh_constraint [8, 4, 3.9]) = 0 \<and>
         h_reference (run_scheduler first_to_last_change fresh_constraint [8, 4, 3.9]) = last [8, 4, 3.9]"
    using l by blast
  then show ?thesis
    unfolding t by (simp add: fresh_constraint_def)
qed

section \<open>Properties of the plotting entry point (plot.py)\<close>

lemma plot_learning_curves_events:
  "filter (\<lambda>e. \<not> is_save_fig e) (fst (plot_learning_curves train valid p)) = []"
  by (simp add: plot_learning_curves_def split: sum.splits)

lemma and_then_events:
  "filter P (fst (and_then p q)) = [] \<longleftrightarrow>
     filter P (fst p) = [] \<and> ((\<exists>u. snd p = Inr u) \<longrightarrow> filter P (fst q) = [])"
  by (cases p; cases "snd p") (auto simp add: and_then_def)

text \<open>Without latent variables the events of \<open>plot\<close> are image files only.\<close>

lemma plot_not_latent:
  assumes "\<not> learner.latent lrn"
  shows "filter (\<lambda>e. \<not> is_save_fig e) (fst (plot lrn dbg)) = []"
  using assms
  by (simp add: plot_def and_then_events plot_learning_curves_events plot_adjacency_matrix_def
      plot_adjacency_through_time_def)

text \<open>
  C7 at the failing input: a learner with latent variables whose \<open>adj_w_tt\<close> has shape
  \<open>(1000, 1, 2, 3)\<close>. Besides saving five images, \<open>plot\<close> enters the debugger six times,
  once per drawn line; and when the session ends instead of being resumed, \<open>plot\<close> raises
  \<open>BdbQuit\<close> into its caller, the training loop, before the last image is saved.
\<close>

theorem plot_enters_debugger:
  "plot latent_learner Resume =
     ([SaveFig ''causal_climate_exp/loss.png'', SaveFig ''causal_climate_exp/adjacency_transition.png'',
       SaveFig ''causal_climate_exp/adjacency_time_transition.png'',
       SaveFig ''causal_climate_exp/adjacency_w.png'',
       SetTrace, SetTrace, SetTrace, SetTrace, SetTrace, SetTrace,
       SaveFig ''causal_climate_exp/adjacency_time_w.png''],
      Inr ()) \<and>
   plot latent_learner Quit =
     ([SaveFig ''causal_climate_exp/loss.png'', SaveFig ''causal_climate_exp/adjacency_transition.png'',
       SaveFig ''causal_climate_exp/adjacency_time_transition.png'',
       SaveFig ''causal_climate_exp/adjacency_w.png'',
       SetTrace],
      Inl BdbQuit)"
proof -
  have ma: "moving_average [] 10 = Inr []"
    by (simp add: moving_average_def np_subtract_def np_assign_from_def
        slice_from_def slice_to_def slice_bound_def)
  have curves: "plot_learning_curves [Finite 5, Finite 4, Finite 3] [Finite 6, Finite 5] p =
      ([SaveFig (path_join p ''loss.png'')], Inr ())"
    for p
    by (simp add: plot_learning_curves_def slice_from_def slice_bound_def ma)
  have resumed: "set_trace_loop 6 Resume =
        ([SetTrace, SetTrace, SetTrace, SetTrace, SetTrace, SetTrace], Inr ())"
    by (simp add: eval_nat_numeral)
  have quit: "set_trace_loop 6 Quit = ([SetTrace], Inl BdbQuit)"
    by (simp add: eval_nat_numeral)
  show ?thesis
    by (simp add: plot_def curves and_then_def plot_adjacency_matrix_def
        plot_adjacency_through_time_def plot_adjacency_matrix_w_def
        plot_adjacency_through_time_w_def resumed quit path_join_def latent_learner_def example_args_def)
qed

section \<open>Properties of the conversion paths (convert\_netcdf\_files.py)\<close>

text \<open>The chunked-table path does not depend on the frequency it is called with.\<close>

lemma main_hdf5_ignores_frequency:
  "main_hdf5 g files fn frequency = main_hdf5 g files fn ''day''"
  by (simp add: main_hdf5_def)

lemma df_values_append:
  "df_values (df\<lparr>rows := rows df @ rows df'\<rparr>) = df_values df @ df_values df'"
  by (simp add: df_values_def)

lemma loops_in_step:
  assumes "in_step st st'" and "numpy_loop g files fn ''day'' st = Inr r"
  shows "\<exists>r'. hdf5_loop g files fn st' = Inr r' \<and> in_step r r'"
  using assms
proof (induction files arbitrary: fn st st' r)
  case Nil
  then show ?case
    by simp
next
  case (Cons f files)
  from Cons.prems(2) obtain df_temp md fn' where
    conv: "convert_netcdf_to_pandas g f fn ''day'' = Inr (df_temp, md, fn')"
    by (auto split: sum.splits)
  show ?case
  proof (cases st)
    case None
    with Cons.prems(1) have st': "st' = None"
      by (cases st') simp_all
    let ?p = "\<lparr>ncols = 3 + length (features df_temp), data = df_values df_temp, metadata = md\<rparr>"
    have "numpy_loop g files fn' ''day'' (Some (df_temp, md)) = Inr r"
      using Cons.prems(2) conv None by simp
    moreover have "in_step (Some (df_temp, md)) (Some ?p)"
      by simp
    ultimately obtain r' where "hdf5_loop g files fn' (Some ?p) = Inr r'" and "in_step r r'"
      using Cons.IH by blast
    then show ?thesis
      using conv st' by simp
  next
    case (Some s)
    obtain df old where s: "s = (df, old)"
      by (cases s)
    from Cons.prems(1) Some s obtain p where st': "st' = Some p"
      and p: "data p = df_values df" "ncols p = 3 + length (features df)"
      by (cases st') simp_all
    have same: "features df = features df_temp"
      using Cons.prems(2) conv Some s by (auto split: if_splits)
    let ?df = "df\<lparr>rows := rows df @ rows df_temp\<rparr>"
    let ?p = "p\<lparr>data := data p @ df_values df_temp\<rparr>"
    have "numpy_loop g files fn' ''day'' (Some (?df, md)) = Inr r"
      using Cons.prems(2) conv Some s same by simp
    moreover have "in_step (Some (?df, md)) (Some ?p)"
      using p by (simp add: df_values_append)
    ultimately obtain r' where "hdf5_loop g files fn' (Some ?p) = Inr r'" and "in_step r r'"
      using Cons.IH by blast
    then show ?thesis
      using conv st' p same by simp
  qed
qed

lemma day_paths_agree:
  assumes "main_numpy g files fn ''day'' = Inr p"
  shows "\<exists>q. main_hdf5 g files fn frequency = Inr q \<and> data q = data p \<and> ncols q = ncols p"
proof -
  from assms obtain df md where
    n: "numpy_loop g files fn ''day'' None = Inr (Some (df, md))"
    and p: "p = \<lparr>ncols = 3 + length (features df), data = df_values df, metadata = md\<rparr>"
    by (auto simp add: main_numpy_def split: sum.splits option.splits)
  have "in_step None None"
    by simp
  from loops_in_step [OF this n] obtain r' where
    h: "hdf5_loop g files fn None = Inr r'" and s: "in_step (Some (df, md)) r'"
    by blast
  from s obtain q where "r' = Some q" and "data q = df_values df"
    and "ncols q = 3 + length (features df)"
    by (cases r') simp_all
  with h p show ?thesis
    by (simp add: main_hdf5_def)
qed

text \<open>
  C8 at the failing input: one file with two daily observations of one grid cell, the
  feature \<open>shum\<close>, frequency \<open>week\<close>. The dense-array path writes the weekly mean, one row
  labelled by the Sunday that ends the week; the chunked-table path writes the two daily
  rows.
\<close>

theorem weekly_paths_differ:
  "main_numpy (\<lambda>freq. week_ending_sunday) [two_days] [''shum''] ''week'' =
     Inr \<lparr>ncols = 4, data = [[864000, 0, 0, 2]],
          metadata = [(''title'', ''4x daily NMC reanalysis'')]\<rparr> \<and>
   main_hdf5 (\<lambda>freq. week_ending_sunday) [two_days] [''shum''] ''week'' =
     Inr \<lparr>ncols = 4, data = [[345600, 0, 0, 1], [432000, 0, 0, 3]],
          metadata = [(''title'', ''4x daily NMC reanalysis'')]\<rparr>"
proof -
  have w: "week_ending_sunday 345600 = 864000" "week_ending_sunday 432000 = 864000"
    by (simp_all add: week_ending_sunday_def)
  have g: "group_mean week_ending_sunday (Suc 0) [(345600, 0, 0, [1]), (432000, 0, 0, [3])] =
        [(864000, 0, 0, [2])]"
    by (simp add: group_mean_def w mean_def)
  have c: "convert_netcdf_to_pandas (\<lambda>freq. week_ending_sunday) two_days [''shum''] ''week'' =
        Inr (\<lparr>features = [''shum''], rows = [(864000, 0, 0, [2])]\<rparr>,
             [(''title'', ''4x daily NMC reanalysis'')], [''shum''])"
    by (simp add: convert_netcdf_to_pandas_def two_days_def project_def g Let_def)
  have d: "convert_netcdf_to_pandas (\<lambda>freq. week_ending_sunday) two_days [''shum''] ''day'' =
        Inr (\<lparr>features = [''shum''], rows = [(345600, 0, 0, [1]), (432000, 0, 0, [3])]\<rparr>,
             [(''title'', ''4x daily NMC reanalysis'')], [''shum''])"
    by (simp add: convert_netcdf_to_pandas_def two_days_def project_def Let_def)
  show ?thesis
    by (simp add: main_numpy_def main_hdf5_def c d df_values_def)
qed

end
